theory Spec2Isabelle
  imports Main
begin

section \<open>The file-sharing application of \<^verbatim>\<open>File/app.py\<close>\<close>

text \<open>
  The class \<^verbatim>\<open>FileShareApp\<close> keeps two pieces of mutable state: the dictionary
  \<^verbatim>\<open>shared_links\<close> and the directory tree the operating system holds for it. Every
  route handler is a function from the state before the request to the state after it and
  the response. What a handler reads from outside (the clock, \<^verbatim>\<open>uuid.uuid4()\<close>,
  \<^verbatim>\<open>os.urandom\<close> through MD5, the request) is an argument of the function.
\<close>

subsection \<open>Values\<close>

text \<open>
  A \<^verbatim>\<open>datetime\<close> is the number of microseconds since some fixed instant, an unbounded
  integer (the range check of \<^verbatim>\<open>datetime\<close> at year 9999 is left out);
  \<^verbatim>\<open>timedelta(days=n)\<close> is a number of microseconds.
\<close>

type_synonym datetime = int

definition timedelta_days :: "int \<Rightarrow> int" where
  "timedelta_days n = n * 86400000000"

text \<open>File contents are byte strings; a \<^typ>\<open>char\<close> is one byte.\<close>

type_synonym bytes = "char list"

text \<open>The value stored under a share id (a dict with three keys in the source).\<close>

record link_info =
  filename :: string
  created_at :: datetime
  expires_at :: datetime

subsection \<open>Path functions of the standard library (posixpath)\<close>

text \<open>
  \<^verbatim>\<open>str.rfind\<close> for a single character: the highest index holding it, or \<open>-1\<close>.
  File names are sequences of bytes here; the separators \<^verbatim>\<open>/\<close> and \<^verbatim>\<open>.\<close> are
  ASCII, so splitting at them gives the same pieces as on code points.
\<close>

fun rfind_from :: "char \<Rightarrow> string \<Rightarrow> int \<Rightarrow> int \<Rightarrow> int" where
  "rfind_from c [] i found = found"
| "rfind_from c (x # xs) i found = rfind_from c xs (i + 1) (if x = c then i else found)"

definition rfind :: "string \<Rightarrow> char \<Rightarrow> int" where
  "rfind p c = rfind_from c p 0 (- 1)"

text \<open>
  The loop of \<^verbatim>\<open>genericpath._splitext\<close> that skips leading dots: it answers whether
  some character in \<^verbatim>\<open>p[filenameIndex:dotIndex]\<close> is not a dot.
\<close>

function splitext_scan :: "string \<Rightarrow> nat \<Rightarrow> nat \<Rightarrow> bool" where
  "splitext_scan p filenameIndex dotIndex =
     (if filenameIndex < dotIndex
      then (if p ! filenameIndex \<noteq> CHR ''.'' then True
            else splitext_scan p (filenameIndex + 1) dotIndex)
      else False)"
  by pat_completeness auto
termination
  by (relation "measure (\<lambda>(p, i, d). d - i)") auto

declare splitext_scan.simps [simp del]

text \<open>\<^verbatim>\<open>os.path.splitext\<close>: the extension starts at the last dot of the last component,
  unless that component consists of leading dots only up to there.\<close>

definition splitext :: "string \<Rightarrow> string \<times> string" where
  "splitext p =
     (let sepIndex = rfind p CHR ''/'';
          dotIndex = rfind p CHR ''.''
      in if dotIndex > sepIndex \<and> splitext_scan p (nat (sepIndex + 1)) (nat dotIndex)
         then (take (nat dotIndex) p, drop (nat dotIndex) p)
         else (p, []))"

text \<open>\<^verbatim>\<open>os.path.join(a, b)\<close> with one component \<open>b\<close>: an absolute \<open>b\<close> replaces \<open>a\<close>.\<close>

definition os_path_join :: "string \<Rightarrow> string \<Rightarrow> string" where
  "os_path_join a b =
     (if take 1 b = ''/'' then b
      else if a = [] \<or> (a \<noteq> [] \<and> last a = CHR ''/'') then a @ b
      else a @ ''/'' @ b)"

text \<open>\<^verbatim>\<open>os.path.dirname\<close>: everything up to the last separator, trailing separators
  stripped unless nothing else is left.\<close>

definition rstrip_sep :: "string \<Rightarrow> string" where
  "rstrip_sep s = rev (dropWhile (\<lambda>c. c = CHR ''/'') (rev s))"

definition dirname :: "string \<Rightarrow> string" where
  "dirname p =
     (let i = nat (rfind p CHR ''/'' + 1);
          head = take i p
      in if head \<noteq> [] \<and> head \<noteq> replicate (length head) CHR ''/''
         then rstrip_sep head else head)"

subsection \<open>The file system\<close>

text \<open>
  The operating system's directory tree. A location is the list of component names from
  the root directory down; it holds a regular file with its contents, a directory, or
  nothing, and the root is always a directory. The working directory, which is also
  Flask's root path, is a location. There are no symbolic links; permissions and disk
  failures are left out. File names are the byte strings the operating system sees.
\<close>

datatype node = RegularFile bytes | Directory

type_synonym location = "string list"

record filesystem =
  nodes :: "location \<rightharpoonup> node"
  cwd :: location

definition node_at :: "filesystem \<Rightarrow> location \<Rightarrow> node option" where
  "node_at fs loc = (if loc = [] then Some Directory else nodes fs loc)"

text \<open>
  The exceptions that a path can raise: the subclasses of \<^verbatim>\<open>OSError\<close> by name, the plain
  \<^verbatim>\<open>OSError\<close> of a name that is too long (\<^verbatim>\<open>ENAMETOOLONG\<close>), and the \<^verbatim>\<open>ValueError\<close>
  that Python raises for a path with an embedded null byte before it calls the system.
\<close>

datatype py_error =
    FileNotFoundError
  | IsADirectoryError
  | NotADirectoryError
  | FileExistsError
  | NameTooLong
  | EmbeddedNull

text \<open>The limits of Linux: 255 bytes for one component, 4096 bytes for a path with its
  terminating null.\<close>

definition NAME_MAX :: nat where
  "NAME_MAX = 255"

definition PATH_MAX :: nat where
  "PATH_MAX = 4096"

text \<open>The components of a path: \<^verbatim>\<open>path.split('/')\<close>.\<close>

fun split_sep :: "string \<Rightarrow> string list" where
  "split_sep [] = [[]]"
| "split_sep (c # cs) =
     (if c = CHR ''/'' then [] # split_sep cs
      else (case split_sep cs of
              [] \<Rightarrow> [[c]]
            | x # xs \<Rightarrow> (c # x) # xs))"

text \<open>
  Path resolution, component by component, from a directory \<open>cur\<close>. An empty
  component and \<^verbatim>\<open>.\<close> stay, \<^verbatim>\<open>..\<close> goes to the parent, and a name goes down: every
  name but the last must be an existing directory; the last one need not exist.
\<close>

fun walk :: "filesystem \<Rightarrow> location \<Rightarrow> string list \<Rightarrow> py_error + location" where
  "walk fs cur [] = Inr cur"
| "walk fs cur (c # cs) =
     (if c = [] \<or> c = ''.'' then walk fs cur cs
      else if c = ''..'' then
        (if node_at fs (butlast cur) = Some Directory then walk fs (butlast cur) cs
         else Inl FileNotFoundError)
      else if NAME_MAX < length c then Inl NameTooLong
      else if cs = [] then Inr (cur @ [c])
      else (case node_at fs (cur @ [c]) of
              None \<Rightarrow> Inl FileNotFoundError
            | Some (RegularFile _) \<Rightarrow> Inl NotADirectoryError
            | Some Directory \<Rightarrow> walk fs (cur @ [c]) cs))"

definition resolve :: "filesystem \<Rightarrow> string \<Rightarrow> py_error + location" where
  "resolve fs path =
     (if CHR 0x00 \<in> set path then Inl EmbeddedNull
      else if path = [] then Inl FileNotFoundError
      else if PATH_MAX \<le> length path then Inl NameTooLong
      else
        (let start = (if take 1 path = ''/'' then [] else cwd fs)
         in if node_at fs start \<noteq> Some Directory then Inl FileNotFoundError
            else walk fs start (split_sep path)))"

text \<open>\<^verbatim>\<open>os.path.exists\<close> answers \<^verbatim>\<open>False\<close> for every path that cannot be looked up.\<close>

definition os_path_exists :: "filesystem \<Rightarrow> string \<Rightarrow> bool" where
  "os_path_exists fs p =
     (case resolve fs p of
        Inl _ \<Rightarrow> False
      | Inr loc \<Rightarrow> node_at fs loc \<noteq> None)"

definition os_remove :: "filesystem \<Rightarrow> string \<Rightarrow> py_error + filesystem" where
  "os_remove fs p =
     (case resolve fs p of
        Inl e \<Rightarrow> Inl e
      | Inr loc \<Rightarrow>
          (case node_at fs loc of
             None \<Rightarrow> Inl FileNotFoundError
           | Some Directory \<Rightarrow> Inl IsADirectoryError
           | Some (RegularFile _) \<Rightarrow> Inr (fs\<lparr>nodes := (nodes fs)(loc := None)\<rparr>)))"

text \<open>What \<^verbatim>\<open>send_file(path, as_attachment=True)\<close> reads: the bytes of a regular file.\<close>

definition send_file :: "filesystem \<Rightarrow> string \<Rightarrow> py_error + bytes" where
  "send_file fs p =
     (case resolve fs p of
        Inl e \<Rightarrow> Inl e
      | Inr loc \<Rightarrow>
          (case node_at fs loc of
             None \<Rightarrow> Inl FileNotFoundError
           | Some Directory \<Rightarrow> Inl IsADirectoryError
           | Some (RegularFile content) \<Rightarrow> Inr content))"

text \<open>
  \<^verbatim>\<open>FileStorage.save(dst)\<close> opens \<open>dst\<close> for writing (\<^verbatim>\<open>"wb"\<close>), which creates or
  truncates the regular file that the path resolves to, and copies the bytes.
\<close>

definition file_save :: "filesystem \<Rightarrow> string \<Rightarrow> bytes \<Rightarrow> py_error + filesystem" where
  "file_save fs dst content =
     (case resolve fs dst of
        Inl e \<Rightarrow> Inl e
      | Inr loc \<Rightarrow>
          (case node_at fs loc of
             Some Directory \<Rightarrow> Inl IsADirectoryError
           | _ \<Rightarrow> Inr (fs\<lparr>nodes := (nodes fs)(loc \<mapsto> RegularFile content)\<rparr>)))"

text \<open>The path names a regular file with these bytes.\<close>

definition stored :: "filesystem \<Rightarrow> string \<Rightarrow> bytes \<Rightarrow> bool" where
  "stored fs p content =
     (case resolve fs p of
        Inl _ \<Rightarrow> False
      | Inr loc \<Rightarrow> node_at fs loc = Some (RegularFile content))"

text \<open>
  \<^verbatim>\<open>os.makedirs(name, exist_ok=True)\<close>: goes along the path and makes every directory
  that is missing; a regular file in the way is an error.
\<close>

fun makedirs_walk :: "filesystem \<Rightarrow> location \<Rightarrow> string list \<Rightarrow> py_error + filesystem" where
  "makedirs_walk fs cur [] = Inr fs"
| "makedirs_walk fs cur (c # cs) =
     (if c = [] \<or> c = ''.'' then makedirs_walk fs cur cs
      else if c = ''..'' then makedirs_walk fs (butlast cur) cs
      else if NAME_MAX < length c then Inl NameTooLong
      else (case node_at fs (cur @ [c]) of
              Some Directory \<Rightarrow> makedirs_walk fs (cur @ [c]) cs
            | Some (RegularFile _) \<Rightarrow>
                Inl (if cs = [] then FileExistsError else NotADirectoryError)
            | None \<Rightarrow>
                makedirs_walk (fs\<lparr>nodes := (nodes fs)(cur @ [c] \<mapsto> Directory)\<rparr>)
                  (cur @ [c]) cs))"

definition os_makedirs :: "filesystem \<Rightarrow> string \<Rightarrow> py_error + filesystem" where
  "os_makedirs fs name =
     (if CHR 0x00 \<in> set name then Inl EmbeddedNull
      else if name = [] then Inl FileNotFoundError
      else if PATH_MAX \<le> length name then Inl NameTooLong
      else
        (let start = (if take 1 name = ''/'' then [] else cwd fs)
         in if node_at fs start \<noteq> Some Directory then Inl FileNotFoundError
            else makedirs_walk fs start (split_sep name)))"

subsection \<open>Application, state, requests and responses\<close>

text \<open>The constructor's arguments; \<^verbatim>\<open>app.config['UPLOAD_FOLDER']\<close> and
  \<^verbatim>\<open>app.config['MAX_CONTENT_LENGTH']\<close> are copies of them (lines 23 and 24).\<close>

record app_config =
  upload_folder :: string
  max_file_size :: int

definition UPLOAD_FOLDER :: "app_config \<Rightarrow> string" where
  "UPLOAD_FOLDER app = upload_folder app"

definition MAX_CONTENT_LENGTH :: "app_config \<Rightarrow> int" where
  "MAX_CONTENT_LENGTH app = max_file_size app"

record app_state =
  shared_links :: "string \<rightharpoonup> link_info"
  disk :: filesystem

text \<open>An uploaded part (\<^verbatim>\<open>werkzeug.FileStorage\<close>): the client's file name, unchanged, and
  the bytes of the part.\<close>

record file_storage =
  file_name :: string
  file_data :: bytes

text \<open>
  An upload request: the length of its body in bytes (its \<^verbatim>\<open>Content-Length\<close>) and the
  file parts of the multipart form by field name. The body of a multipart request holds
  every part's bytes and, around them, the boundary lines and part headers, so it is
  longer than any of its parts.
\<close>

record request =
  content_length :: int
  files :: "string \<rightharpoonup> file_storage"

definition multipart_request :: "request \<Rightarrow> bool" where
  "multipart_request req =
     (\<forall>f \<in> ran (files req). int (length (file_data f)) < content_length req)"

datatype upload_error = No_file_part | No_selected_file | File_too_large int

datatype flash =
    File_not_found
  | Uploaded string
  | Deleted string
  | Error_deleting py_error

text \<open>The template a handler renders, with the arguments it passes.\<close>

datatype page =
    Index_html "upload_error option"
  | Share_html string string int
  | Files_html

datatype response =
    Render page nat
  | Redirect string flash
  | Attachment bytes
  | Abort nat string
  | RequestEntityTooLarge
  | Unhandled py_error
  | NoResponse

text \<open>The HTTP status of a response; an exception nobody catches and a view that returns
  \<^verbatim>\<open>None\<close> are answered with 500 by Flask.\<close>

fun status :: "response \<Rightarrow> nat" where
  "status (Render _ code) = code"
| "status (Redirect _ _) = 302"
| "status (Attachment _) = 200"
| "status (Abort code _) = code"
| "status RequestEntityTooLarge = 413"
| "status (Unhandled _) = 500"
| "status NoResponse = 500"

subsection \<open>The filename deduplicator\<close>

text \<open>
  \<^verbatim>\<open>_generate_unique_filename\<close> (lines 173 to 182). The argument \<open>hexdigest\<close> is
  \<^verbatim>\<open>hashlib.md5(f"{original_filename}{os.urandom(32)}".encode()).hexdigest()\<close>: 32
  lowercase hexadecimal digits, of which the first ten are kept.
\<close>

definition generate_unique_filename :: "string \<Rightarrow> string \<Rightarrow> string" where
  "generate_unique_filename original_filename hexdigest =
     (let (name, ext) = splitext original_filename;
          unique_hash = take 10 hexdigest
      in name @ ''_'' @ unique_hash @ ext)"

definition hexdigits :: "char set" where
  "hexdigits = set ''0123456789abcdef''"

definition md5_hexdigest :: "string \<Rightarrow> bool" where
  "md5_hexdigest h = (length h = 32 \<and> set h \<subseteq> hexdigits)"

subsection \<open>The route handlers\<close>

text \<open>
  Reading \<^verbatim>\<open>request.files\<close> (line 48) parses the body, and Flask refuses a body longer
  than the \<^verbatim>\<open>MAX_CONTENT_LENGTH\<close> that line 24 configures: it raises
  \<^verbatim>\<open>RequestEntityTooLarge\<close>, which no handler catches and which is answered with 413.
\<close>

definition request_files :: "app_config \<Rightarrow> request \<Rightarrow> (string \<rightharpoonup> file_storage) option" where
  "request_files app req =
     (if content_length req > MAX_CONTENT_LENGTH app then None else Some (files req))"

text \<open>\<^verbatim>\<open>index\<close> (lines 42 to 44).\<close>

definition index :: "app_config \<Rightarrow> app_state \<Rightarrow> app_state \<times> response" where
  "index app st = (st, Render (Index_html None) 200)"

text \<open>\<^verbatim>\<open>upload\<close> (lines 46 to 77); \<open>hexdigest\<close> is the MD5 digest the deduplicator draws.
  A \<^verbatim>\<open>FileStorage\<close> is true exactly when its file name is not empty.\<close>

definition upload :: "app_config \<Rightarrow> app_state \<Rightarrow> request \<Rightarrow> string \<Rightarrow> app_state \<times> response" where
  "upload app st req hexdigest =
     (case request_files app req of
        None \<Rightarrow> (st, RequestEntityTooLarge)
      | Some request_files' \<Rightarrow>
          (case request_files' ''file'' of
             None \<Rightarrow> (st, Render (Index_html (Some No_file_part)) 400)
           | Some file \<Rightarrow>
               if file_name file = [] then (st, Render (Index_html (Some No_selected_file)) 400)
               else if file_name file \<noteq> [] then
                 (let file_size = int (length (file_data file))
                  in if file_size > max_file_size app
                     then (st, Render (Index_html (Some (File_too_large (max_file_size app)))) 400)
                     else
                       (let filename' = generate_unique_filename (file_name file) hexdigest;
                            filepath = os_path_join (UPLOAD_FOLDER app) filename'
                        in case file_save (disk st) filepath (file_data file) of
                             Inl e \<Rightarrow> (st, Unhandled e)
                           | Inr disk' \<Rightarrow>
                               (st\<lparr>disk := disk'\<rparr>, Redirect ''list_files'' (Uploaded filename'))))
               else (st, NoResponse)))"

text \<open>\<^verbatim>\<open>download\<close> (lines 79 to 88).\<close>

definition download :: "app_config \<Rightarrow> app_state \<Rightarrow> string \<Rightarrow> app_state \<times> response" where
  "download app st filename' =
     (case send_file (disk st) (os_path_join (UPLOAD_FOLDER app) filename') of
        Inr content \<Rightarrow> (st, Attachment content)
      | Inl FileNotFoundError \<Rightarrow> (st, Redirect ''list_files'' File_not_found)
      | Inl e \<Rightarrow> (st, Unhandled e))"

text \<open>\<^verbatim>\<open>delete_file\<close> (lines 90 to 109).\<close>

definition delete_file :: "app_config \<Rightarrow> app_state \<Rightarrow> string \<Rightarrow> app_state \<times> response" where
  "delete_file app st filename' =
     (let filepath = os_path_join (UPLOAD_FOLDER app) filename'
      in if \<not> os_path_exists (disk st) filepath
         then (st, Redirect ''list_files'' File_not_found)
         else (case os_remove (disk st) filepath of
                 Inr disk' \<Rightarrow> (st\<lparr>disk := disk'\<rparr>, Redirect ''list_files'' (Deleted filename'))
               | Inl e \<Rightarrow> (st, Redirect ''list_files'' (Error_deleting e))))"

text \<open>
  \<^verbatim>\<open>share_file\<close> (lines 111 to 136). \<open>share_id\<close> is \<^verbatim>\<open>str(uuid.uuid4())\<close>; the source
  reads the clock twice, \<open>now1\<close> for \<^verbatim>\<open>created_at\<close> and then \<open>now2\<close> for
  \<^verbatim>\<open>expires_at\<close>.
\<close>

definition share_file ::
  "app_config \<Rightarrow> app_state \<Rightarrow> string \<Rightarrow> string \<Rightarrow> datetime \<Rightarrow> datetime \<Rightarrow> app_state \<times> response" where
  "share_file app st filename' share_id now1 now2 =
     (let filepath = os_path_join (UPLOAD_FOLDER app) filename'
      in if \<not> os_path_exists (disk st) filepath
         then (st, Redirect ''list_files'' File_not_found)
         else
           (st\<lparr>shared_links := (shared_links st)(share_id \<mapsto>
                 \<lparr>filename = filename', created_at = now1,
                  expires_at = now2 + timedelta_days 7\<rparr>)\<rparr>,
            Render (Share_html filename' share_id 7) 200))"

text \<open>\<^verbatim>\<open>shared_download\<close> (lines 138 to 158); \<open>now\<close> is the clock at line 147.\<close>

definition shared_download ::
  "app_config \<Rightarrow> app_state \<Rightarrow> string \<Rightarrow> datetime \<Rightarrow> app_state \<times> response" where
  "shared_download app st share_id now =
     (case shared_links st share_id of
        None \<Rightarrow> (st, Abort 404 ''Invalid or expired sharing link'')
      | Some link_info \<Rightarrow>
          if now > expires_at link_info
          then (st\<lparr>shared_links := (shared_links st)(share_id := None)\<rparr>,
                Abort 410 ''Sharing link has expired'')
          else
            (let filename' = filename link_info;
                 filepath = os_path_join (UPLOAD_FOLDER app) filename'
             in case send_file (disk st) filepath of
                  Inr content \<Rightarrow> (st, Attachment content)
                | Inl FileNotFoundError \<Rightarrow> (st, Abort 404 ''File not found'')
                | Inl e \<Rightarrow> (st, Unhandled e)))"

text \<open>\<^verbatim>\<open>list_files\<close> (lines 160 to 171) reads the directory and changes nothing;
  \<^verbatim>\<open>os.listdir\<close> raises when the folder is not a directory. The rows of the rendered
  table are not modelled.\<close>

definition list_files :: "app_config \<Rightarrow> app_state \<Rightarrow> app_state \<times> response" where
  "list_files app st =
     (case resolve (disk st) (UPLOAD_FOLDER app) of
        Inl e \<Rightarrow> (st, Unhandled e)
      | Inr loc \<Rightarrow>
          (case node_at (disk st) loc of
             None \<Rightarrow> (st, Unhandled FileNotFoundError)
           | Some (RegularFile _) \<Rightarrow> (st, Unhandled NotADirectoryError)
           | Some Directory \<Rightarrow> (st, Render Files_html 200)))"

subsection \<open>Sequences of requests\<close>

text \<open>One request to one of the seven routes of \<^verbatim>\<open>setup_routes\<close>, with what the handler
  reads from outside.\<close>

datatype operation =
    Op_index
  | Op_upload request string
  | Op_download string
  | Op_delete_file string
  | Op_list_files
  | Op_share_file string string datetime datetime
  | Op_shared_download string datetime

fun step :: "app_config \<Rightarrow> app_state \<Rightarrow> operation \<Rightarrow> app_state \<times> response" where
  "step app st Op_index = index app st"
| "step app st (Op_upload req hexdigest) = upload app st req hexdigest"
| "step app st (Op_download name) = download app st name"
| "step app st (Op_delete_file name) = delete_file app st name"
| "step app st Op_list_files = list_files app st"
| "step app st (Op_share_file name share_id now1 now2) = share_file app st name share_id now1 now2"
| "step app st (Op_shared_download share_id now) = shared_download app st share_id now"

definition run :: "app_config \<Rightarrow> app_state \<Rightarrow> operation list \<Rightarrow> app_state" where
  "run app st ops = foldl (\<lambda>s op. fst (step app s op)) st ops"

text \<open>The state the constructor leaves (lines 10 to 30): the upload folder made by
  \<^verbatim>\<open>os.makedirs(upload_folder, exist_ok=True)\<close>, and no share links.\<close>

definition init :: "app_config \<Rightarrow> filesystem \<Rightarrow> py_error + app_state" where
  "init app fs =
     (case os_makedirs fs (upload_folder app) of
        Inl e \<Rightarrow> Inl e
      | Inr fs' \<Rightarrow> Inr \<lparr>shared_links = Map.empty, disk = fs'\<rparr>)"

subsection \<open>What the specification asks of a stored name\<close>

text \<open>
  A stored name is syntactically safe when it holds no directory separator and is not one
  of the names that denote a directory itself or its parent.
\<close>

definition syntactically_safe :: "string \<Rightarrow> bool" where
  "syntactically_safe stored_name =
     (CHR ''/'' \<notin> set stored_name \<and> stored_name \<notin> {[], ''.'', ''..''})"

subsection \<open>Sample values\<close>

text \<open>The constructor's defaults (line 10), and the values of the scenario in which
  \<^verbatim>\<open>report.pdf\<close> (10 KiB) is uploaded into the empty folder and then shared.\<close>

definition default_app :: app_config where
  "default_app = \<lparr>upload_folder = ''uploads'', max_file_size = 16 * 1024 * 1024\<rparr>"

definition sample_digest :: string where
  "sample_digest = ''d41d8cd98f00b204e9800998ecf8427e''"

definition sample_share_id :: string where
  "sample_share_id = ''16fd2706-8baf-433b-82eb-8c7fada847da''"

definition report_upload :: request where
  "report_upload = \<lparr>content_length = 10240 + 190,
     files = [''file'' \<mapsto> \<lparr>file_name = ''report.pdf'', file_data = replicate 10240 CHR ''r''\<rparr>]\<rparr>"

definition report_link :: link_info where
  "report_link = \<lparr>filename = ''report_d41d8cd98f.pdf'', created_at = 1000000,
     expires_at = 1000001 + timedelta_days 7\<rparr>"

definition bare_disk :: filesystem where
  "bare_disk = \<lparr>nodes = [[''srv''] \<mapsto> Directory, [''srv'', ''fileshare''] \<mapsto> Directory],
     cwd = [''srv'', ''fileshare'']\<rparr>"

definition uploads_disk :: filesystem where
  "uploads_disk = bare_disk\<lparr>nodes := (nodes bare_disk)
     ([''srv'', ''fileshare'', ''uploads''] \<mapsto> Directory)\<rparr>"

definition report_disk :: filesystem where
  "report_disk = uploads_disk\<lparr>nodes := (nodes uploads_disk)
     ([''srv'', ''fileshare'', ''uploads'', ''report_d41d8cd98f.pdf'']
        \<mapsto> RegularFile (replicate 10240 CHR ''r''))\<rparr>"

definition empty_folder :: app_state where
  "empty_folder = \<lparr>shared_links = Map.empty, disk = uploads_disk\<rparr>"

definition report_stored :: app_state where
  "report_stored = \<lparr>shared_links = Map.empty, disk = report_disk\<rparr>"

definition report_shared :: app_state where
  "report_shared = report_stored\<lparr>shared_links := [sample_share_id \<mapsto> report_link]\<rparr>"

section \<open>Auxiliary facts\<close>

subsection \<open>Paths that resolve\<close>

lemma node_at_root: "node_at fs [] = Some Directory"
  by (simp add: node_at_def)

text \<open>A path that resolves keeps resolving to the same location in every file system
  that has at least the same directories.\<close>

lemma walk_dirs_kept:
  assumes kept: "\<And>x. node_at fs x = Some Directory \<Longrightarrow> node_at fs' x = Some Directory"
  shows "walk fs cur cs = Inr l \<Longrightarrow> walk fs' cur cs = Inr l"
proof (induction cs arbitrary: cur)
  case Nil
  then show ?case by simp
next
  case (Cons c cs)
  show ?case
  proof (cases "c = [] \<or> c = ''.''")
    case True
    with Cons show ?thesis by simp
  next
    case plain: False
    show ?thesis
    proof (cases "c = ''..''")
      case True
      with plain Cons.prems have "node_at fs (butlast cur) = Some Directory"
        and "walk fs (butlast cur) cs = Inr l"
        by (auto split: if_splits)
      with True plain kept Cons.IH show ?thesis by simp
    next
      case name: False
      show ?thesis
      proof (cases "cs = []")
        case True
        with plain name Cons.prems show ?thesis by (auto split: if_splits)
      next
        case False
        with plain name Cons.prems have short: "\<not> NAME_MAX < length c"
          and "node_at fs (cur @ [c]) = Some Directory"
          and "walk fs (cur @ [c]) cs = Inr l"
          by (auto split: if_splits option.splits node.splits)
        with False plain name kept Cons.IH show ?thesis by simp
      qed
    qed
  qed
qed

lemma resolve_dirs_kept:
  assumes "\<And>x. node_at fs x = Some Directory \<Longrightarrow> node_at fs' x = Some Directory"
      and "cwd fs' = cwd fs"
      and "resolve fs p = Inr l"
  shows "resolve fs' p = Inr l"
proof -
  let ?start = "if take 1 p = ''/'' then [] else cwd fs"
  from assms(3) have ok: "CHR 0x00 \<notin> set p" "p \<noteq> []" "\<not> PATH_MAX \<le> length p"
    and d: "node_at fs ?start = Some Directory"
    and w: "walk fs ?start (split_sep p) = Inr l"
    by (auto simp: resolve_def Let_def split: if_splits)
  from d assms(1) have "node_at fs' ?start = Some Directory" by blast
  moreover from w assms(1) have "walk fs' ?start (split_sep p) = Inr l"
    by (rule walk_dirs_kept [rotated])
  ultimately show ?thesis using ok assms(2)
    by (auto simp: resolve_def Let_def split: if_splits)
qed

lemma node_at_remove:
  "node_at fs loc = Some (RegularFile c) \<Longrightarrow>
   node_at (fs\<lparr>nodes := (nodes fs)(loc := None)\<rparr>) x = (if x = loc then None else node_at fs x)"
  by (auto simp: node_at_def)

lemma node_at_write:
  "node_at fs loc \<noteq> Some Directory \<Longrightarrow>
   node_at (fs\<lparr>nodes := (nodes fs)(loc \<mapsto> RegularFile c)\<rparr>) x
     = (if x = loc then Some (RegularFile c) else node_at fs x)"
  by (auto simp: node_at_def)

text \<open>After \<open>os_remove\<close> the path names nothing.\<close>

lemma os_remove_gone:
  assumes "os_remove fs p = Inr fs'"
  shows "send_file fs' p = Inl FileNotFoundError" and "\<not> os_path_exists fs' p"
proof -
  from assms obtain loc c where r: "resolve fs p = Inr loc"
    and n: "node_at fs loc = Some (RegularFile c)"
    and fs': "fs' = fs\<lparr>nodes := (nodes fs)(loc := None)\<rparr>"
    by (auto simp: os_remove_def split: sum.splits option.splits node.splits)
  have "resolve fs' p = Inr loc"
  proof (rule resolve_dirs_kept [OF _ _ r])
    fix x assume "node_at fs x = Some Directory"
    with n show "node_at fs' x = Some Directory"
      unfolding fs' by (auto simp: node_at_remove)
  qed (simp add: fs')
  moreover from n have "node_at fs' loc = None"
    unfolding fs' by (simp add: node_at_remove)
  ultimately show "send_file fs' p = Inl FileNotFoundError" and "\<not> os_path_exists fs' p"
    by (simp_all add: send_file_def os_path_exists_def)
qed

text \<open>After \<open>file_save\<close> the path names a regular file with the bytes saved.\<close>

lemma write_stored:
  assumes r: "resolve fs p = Inr loc" and n: "node_at fs loc \<noteq> Some Directory"
  shows "stored (fs\<lparr>nodes := (nodes fs)(loc \<mapsto> RegularFile c)\<rparr>) p c"
proof -
  let ?fs' = "fs\<lparr>nodes := (nodes fs)(loc \<mapsto> RegularFile c)\<rparr>"
  have "resolve ?fs' p = Inr loc"
  proof (rule resolve_dirs_kept [OF _ _ r])
    fix x assume "node_at fs x = Some Directory"
    with n show "node_at ?fs' x = Some Directory"
      by (auto simp: node_at_write)
  qed simp
  moreover from n have "node_at ?fs' loc = Some (RegularFile c)"
    by (simp add: node_at_write)
  ultimately show ?thesis by (simp add: stored_def)
qed

lemma file_save_written:
  assumes "resolve fs p = Inr loc" and "node_at fs loc \<noteq> Some Directory"
  shows "file_save fs p c = Inr (fs\<lparr>nodes := (nodes fs)(loc \<mapsto> RegularFile c)\<rparr>)"
  using assms by (simp add: file_save_def split: option.splits node.splits)

lemma stored_send_file: "stored fs p c \<longleftrightarrow> send_file fs p = Inr c"
  by (auto simp: stored_def send_file_def split: sum.splits option.splits node.splits)

lemma stored_exists: "stored fs p c \<Longrightarrow> os_path_exists fs p"
  by (auto simp: stored_def os_path_exists_def split: sum.splits)

lemma stored_remove: "stored fs p c \<Longrightarrow> \<exists>fs'. os_remove fs p = Inr fs'"
  by (auto simp: stored_def os_remove_def split: sum.splits)

subsection \<open>Evaluating the sample scenario\<close>

lemma report_name:
  "generate_unique_filename ''report.pdf'' sample_digest = ''report_d41d8cd98f.pdf''"
  by code_simp

lemma report_path:
  "os_path_join (UPLOAD_FOLDER default_app) ''report_d41d8cd98f.pdf''
     = ''uploads/report_d41d8cd98f.pdf''"
  by (simp add: os_path_join_def UPLOAD_FOLDER_def default_app_def)

lemma sample_digest_ok: "md5_hexdigest sample_digest"
  by (simp add: md5_hexdigest_def sample_digest_def hexdigits_def)

lemma init_sample: "init default_app bare_disk = Inr empty_folder"
  by (simp add: init_def os_makedirs_def default_app_def bare_disk_def node_at_def NAME_MAX_def
      PATH_MAX_def empty_folder_def uploads_disk_def Let_def)

lemma uploads_resolves:
  "resolve uploads_disk (UPLOAD_FOLDER default_app) = Inr [''srv'', ''fileshare'', ''uploads'']"
  by (simp add: resolve_def uploads_disk_def bare_disk_def node_at_def NAME_MAX_def PATH_MAX_def
      UPLOAD_FOLDER_def default_app_def)

lemma report_resolves_new:
  "resolve uploads_disk ''uploads/report_d41d8cd98f.pdf''
     = Inr [''srv'', ''fileshare'', ''uploads'', ''report_d41d8cd98f.pdf'']"
  by (simp add: resolve_def uploads_disk_def bare_disk_def node_at_def NAME_MAX_def PATH_MAX_def)

lemma report_absent:
  "node_at uploads_disk [''srv'', ''fileshare'', ''uploads'', ''report_d41d8cd98f.pdf''] = None"
  by (simp add: uploads_disk_def bare_disk_def node_at_def)

lemma report_resolves:
  "resolve report_disk ''uploads/report_d41d8cd98f.pdf''
     = Inr [''srv'', ''fileshare'', ''uploads'', ''report_d41d8cd98f.pdf'']"
  by (simp add: resolve_def report_disk_def uploads_disk_def bare_disk_def node_at_def
      NAME_MAX_def PATH_MAX_def)

lemma report_present:
  "node_at report_disk [''srv'', ''fileshare'', ''uploads'', ''report_d41d8cd98f.pdf'']
     = Some (RegularFile (replicate 10240 CHR ''r''))"
  by (simp add: report_disk_def node_at_def)

lemma upload_report:
  "upload default_app empty_folder report_upload sample_digest =
     (report_stored, Redirect ''list_files'' (Uploaded ''report_d41d8cd98f.pdf''))"
proof -
  have "file_save uploads_disk ''uploads/report_d41d8cd98f.pdf'' (replicate 10240 CHR ''r'')
      = Inr report_disk"
    by (simp add: file_save_def report_resolves_new report_absent report_disk_def)
  then show ?thesis
    by (simp add: upload_def request_files_def MAX_CONTENT_LENGTH_def report_upload_def
        report_name report_path empty_folder_def report_stored_def Let_def)
      (simp add: default_app_def)
qed

lemma report_stored_file:
  "stored (disk report_stored) (os_path_join (UPLOAD_FOLDER default_app) ''report_d41d8cd98f.pdf'')
     (replicate 10240 CHR ''r'')"
  by (simp add: stored_def report_path report_stored_def report_resolves report_present)

lemma share_report:
  "share_file default_app report_stored ''report_d41d8cd98f.pdf'' sample_share_id 1000000 1000001
     = (report_shared, Render (Share_html ''report_d41d8cd98f.pdf'' sample_share_id 7) 200)"
  using stored_exists [OF report_stored_file]
  by (simp add: share_file_def report_stored_def report_shared_def report_link_def Let_def)

lemma report_shared_file:
  "stored (disk report_shared) (os_path_join (UPLOAD_FOLDER default_app) ''report_d41d8cd98f.pdf'')
     (replicate 10240 CHR ''r'')"
  using report_stored_file by (simp add: report_shared_def)

lemma report_shared_link: "shared_links report_shared sample_share_id = Some report_link"
  by (simp add: report_shared_def)


subsection \<open>How the handlers change the share registry\<close>

lemma upload_shared_links: "shared_links (fst (upload app st req h)) = shared_links st"
  by (simp add: upload_def Let_def split: option.splits sum.splits)

lemma download_state: "fst (download app st name) = st"
  by (simp add: download_def split: sum.splits py_error.splits)

lemma list_files_state: "fst (list_files app st) = st"
  by (simp add: list_files_def split: sum.splits option.splits node.splits)

lemma delete_file_shared_links: "shared_links (fst (delete_file app st name)) = shared_links st"
  by (simp add: delete_file_def Let_def split: sum.splits)

lemma share_file_shared_links:
  "shared_links (fst (share_file app st name sid t1 t2)) sid' = Some e \<Longrightarrow>
   shared_links st sid' = Some e \<or>
   (sid' = sid \<and> e = \<lparr>filename = name, created_at = t1, expires_at = t2 + timedelta_days 7\<rparr>)"
  by (simp add: share_file_def Let_def split: if_splits)

lemma shared_download_shared_links:
  "shared_links (fst (shared_download app st sid now)) sid' = Some e \<Longrightarrow>
   shared_links st sid' = Some e"
  by (simp add: shared_download_def Let_def
      split: option.splits if_splits sum.splits py_error.splits)

text \<open>An entry found after a request was there before, unchanged, or is the one that
  \<open>share_file\<close> has just stored.\<close>

lemma step_shared_links:
  "shared_links (fst (step app st op)) sid = Some e \<Longrightarrow>
   shared_links st sid = Some e \<or>
   (\<exists>name t1 t2. op = Op_share_file name sid t1 t2
      \<and> e = \<lparr>filename = name, created_at = t1, expires_at = t2 + timedelta_days 7\<rparr>)"
proof (cases op)
  case (Op_share_file name sid' t1 t2)
  assume "shared_links (fst (step app st op)) sid = Some e"
  with Op_share_file show ?thesis
    using share_file_shared_links [of app st name sid' t1 t2 sid e] by auto
next
  case (Op_shared_download sid' now)
  assume "shared_links (fst (step app st op)) sid = Some e"
  with Op_shared_download show ?thesis
    using shared_download_shared_links [of app st sid' now sid e] by simp
qed (simp_all add: index_def list_files_state upload_shared_links download_state
    delete_file_shared_links)

lemma run_snoc: "run app st (ops @ [op]) = fst (step app (run app st ops) op)"
  by (simp add: run_def)

lemma entries_as_created:
  assumes "shared_links st0 = Map.empty"
  shows "shared_links (run app st0 ops) sid = Some e \<Longrightarrow>
     \<exists>name t1 t2. Op_share_file name sid t1 t2 \<in> set ops
        \<and> e = \<lparr>filename = name, created_at = t1, expires_at = t2 + timedelta_days 7\<rparr>"
proof (induction ops arbitrary: e rule: rev_induct)
  case Nil
  then show ?case using assms by (simp add: run_def)
next
  case (snoc op ops)
  from snoc.prems have "shared_links (fst (step app (run app st0 ops) op)) sid = Some e"
    by (simp add: run_snoc)
  then consider "shared_links (run app st0 ops) sid = Some e"
    | "\<exists>name t1 t2. op = Op_share_file name sid t1 t2
         \<and> e = \<lparr>filename = name, created_at = t1, expires_at = t2 + timedelta_days 7\<rparr>"
    using step_shared_links by blast
  then show ?case
  proof cases
    case 1
    with snoc.IH show ?thesis by auto
  next
    case 2
    then show ?thesis by auto
  qed
qed

lemma init_shared_links: "init app d = Inr st0 \<Longrightarrow> shared_links st0 = Map.empty"
  by (auto simp: init_def split: sum.splits)

text \<open>A share id that is absent stays absent until \<open>share_file\<close> draws it again.\<close>

lemma absent_step:
  assumes "shared_links st sid = None"
      and "\<forall>name t1 t2. op \<noteq> Op_share_file name sid t1 t2"
  shows "shared_links (fst (step app st op)) sid = None"
proof (rule ccontr)
  assume "shared_links (fst (step app st op)) sid \<noteq> None"
  then obtain e where "shared_links (fst (step app st op)) sid = Some e" by auto
  from step_shared_links [OF this] assms show False by auto
qed

lemma absent_run:
  "shared_links st sid = None \<Longrightarrow> \<forall>name t1 t2. Op_share_file name sid t1 t2 \<notin> set ops \<Longrightarrow>
   shared_links (run app st ops) sid = None"
proof (induction ops rule: rev_induct)
  case Nil
  then show ?case by (simp add: run_def)
next
  case (snoc op ops)
  then have "shared_links (run app st ops) sid = None" by simp
  moreover from snoc.prems(2) have "\<forall>name t1 t2. op \<noteq> Op_share_file name sid t1 t2" by auto
  ultimately show ?case by (simp add: run_snoc absent_step)
qed

text \<open>The only request after which an entry is gone is a resolve of its own share id
  later than its expiry.\<close>

lemma evicted_only_by_expired_access:
  assumes "shared_links st sid = Some e" and "shared_links (fst (step app st op)) sid = None"
  shows "\<exists>t. op = Op_shared_download sid t \<and> expires_at e < t"
proof (cases op)
  case (Op_shared_download sid' now)
  with assms show ?thesis
    by (auto simp: shared_download_def Let_def
        split: option.splits if_splits sum.splits py_error.splits)
next
  case (Op_share_file name sid' t1 t2)
  with assms show ?thesis
    by (auto simp: share_file_def Let_def split: if_splits)
qed (use assms in \<open>simp_all add: index_def list_files_state upload_shared_links download_state
      delete_file_shared_links\<close>)



subsection \<open>The stored names of the deduplicator\<close>

lemma splitext_append: "fst (splitext p) @ snd (splitext p) = p"
  by (simp add: splitext_def Let_def)

lemma generate_unique_filename_eq:
  "generate_unique_filename fn h = fst (splitext fn) @ ''_'' @ take 10 h @ snd (splitext fn)"
  by (simp add: generate_unique_filename_def Let_def split: prod.splits)

lemma sep_notin_hexdigits: "CHR ''/'' \<notin> hexdigits"
  by (simp add: hexdigits_def)

lemma card_hexdigits: "card hexdigits = 16"
  by (simp add: hexdigits_def)

lemma finite_hexdigits: "finite hexdigits"
  by (simp add: hexdigits_def)

lemma take_hexdigest:
  assumes "md5_hexdigest h"
  shows "set (take 10 h) \<subseteq> hexdigits" and "length (take 10 h) = 10"
proof -
  from assms show "set (take 10 h) \<subseteq> hexdigits"
    using set_take_subset [of 10 h] by (auto simp: md5_hexdigest_def)
  from assms show "length (take 10 h) = 10" by (simp add: md5_hexdigest_def)
qed

text \<open>The separators of the client's file name are exactly those of the stored name.\<close>

lemma separator_passes_through:
  assumes "md5_hexdigest h"
  shows "CHR ''/'' \<in> set (generate_unique_filename fn h) \<longleftrightarrow> CHR ''/'' \<in> set fn"
proof -
  from assms have "CHR ''/'' \<notin> set (take 10 h)"
    using take_hexdigest(1) sep_notin_hexdigits by auto
  moreover have "set fn = set (fst (splitext fn)) \<union> set (snd (splitext fn))"
    using splitext_append [of fn] by (metis set_append)
  ultimately show ?thesis by (auto simp: generate_unique_filename_eq)
qed

lemma take10_digests:
  "take 10 ` {h. md5_hexdigest h} = {u. set u \<subseteq> hexdigits \<and> length u = 10}"
proof (intro equalityI subsetI)
  fix u assume "u \<in> take 10 ` {h. md5_hexdigest h}"
  then obtain h where "md5_hexdigest h" and "u = take 10 h" by auto
  then show "u \<in> {u. set u \<subseteq> hexdigits \<and> length u = 10}"
    using take_hexdigest by simp
next
  fix u assume "u \<in> {u. set u \<subseteq> hexdigits \<and> length u = 10}"
  then have s: "set u \<subseteq> hexdigits" and l: "length u = 10" by auto
  have "CHR ''0'' \<in> hexdigits" by (simp add: hexdigits_def)
  with s l have "md5_hexdigest (u @ replicate 22 CHR ''0'')"
    by (auto simp: md5_hexdigest_def)
  moreover from l have "take 10 (u @ replicate 22 CHR ''0'') = u" by simp
  ultimately show "u \<in> take 10 ` {h. md5_hexdigest h}"
    by (intro image_eqI [where x = "u @ replicate 22 CHR ''0''"]) simp_all
qed

lemma card_unique_hashes: "card {u. set u \<subseteq> hexdigits \<and> length u = 10} = 2 ^ 40"
proof -
  have "card {u. set u \<subseteq> hexdigits \<and> length u = 10} = card hexdigits ^ 10"
    using finite_hexdigits by (rule card_lists_length_eq)
  also have "\<dots> = (16::nat) ^ 10" by (simp add: card_hexdigits)
  also have "\<dots> = 2 ^ 40" by simp
  finally show ?thesis .
qed

lemma stored_names_image:
  "generate_unique_filename fn ` {h. md5_hexdigest h} =
     (\<lambda>u. fst (splitext fn) @ ''_'' @ u @ snd (splitext fn))
       ` {u. set u \<subseteq> hexdigits \<and> length u = 10}"
proof -
  have "generate_unique_filename fn ` {h. md5_hexdigest h} =
      (\<lambda>u. fst (splitext fn) @ ''_'' @ u @ snd (splitext fn)) ` (take 10 ` {h. md5_hexdigest h})"
    by (simp add: image_image generate_unique_filename_eq)
  then show ?thesis by (simp only: take10_digests)
qed

lemma card_stored_names: "card (generate_unique_filename fn ` {h. md5_hexdigest h}) = 2 ^ 40"
proof -
  have "inj_on (\<lambda>u. fst (splitext fn) @ ''_'' @ u @ snd (splitext fn))
      {u. set u \<subseteq> hexdigits \<and> length u = 10}"
    by (rule inj_onI) simp
  then have "card ((\<lambda>u. fst (splitext fn) @ ''_'' @ u @ snd (splitext fn))
      ` {u. set u \<subseteq> hexdigits \<and> length u = 10})
      = card {u. set u \<subseteq> hexdigits \<and> length u = 10}"
    by (rule card_image)
  also have "\<dots> = 2 ^ 40" by (rule card_unique_hashes)
  finally show ?thesis unfolding stored_names_image .
qed

lemma card_stored_names_le:
  assumes "H \<subseteq> {h. md5_hexdigest h}"
  shows "card (generate_unique_filename fn ` H) \<le> 2 ^ 40"
proof -
  have "finite (generate_unique_filename fn ` {h. md5_hexdigest h})"
    by (rule card_ge_0_finite) (simp add: card_stored_names)
  moreover from assms
  have "generate_unique_filename fn ` H \<subseteq> generate_unique_filename fn ` {h. md5_hexdigest h}"
    by (rule image_mono)
  ultimately have "card (generate_unique_filename fn ` H)
      \<le> card (generate_unique_filename fn ` {h. md5_hexdigest h})"
    by (rule card_mono)
  then show ?thesis by (simp only: card_stored_names)
qed

lemma evil_name:
  "generate_unique_filename ''../evil.txt'' sample_digest = ''../evil_d41d8cd98f.txt''"
  by code_simp

lemma evil_dirname: "dirname ''uploads/../evil_d41d8cd98f.txt'' = ''uploads/..''"
  by code_simp

lemma absolute_name:
  "generate_unique_filename ''/tmp/evil.txt'' sample_digest = ''/tmp/evil_d41d8cd98f.txt''"
  by code_simp

subsection \<open>The size limits of an upload\<close>

lemma exact_max_hits_gate:
  assumes "multipart_request req" and "files req ''file'' = Some f"
      and "int (length (file_data f)) = max_file_size app"
  shows "upload app st req hexdigest = (st, RequestEntityTooLarge)"
proof -
  from assms(2) have "f \<in> ran (files req)" by (auto simp: ran_def)
  with assms(1) have "int (length (file_data f)) < content_length req"
    by (simp add: multipart_request_def)
  with assms(3) show ?thesis
    by (simp add: upload_def request_files_def MAX_CONTENT_LENGTH_def)
qed

text \<open>The body of a multipart request is longer than its file, so a request that the
  gate lets through has a file below the maximum, and the handler's own check passes.\<close>

lemma upload_within_body_limit:
  assumes mp: "multipart_request req" and f: "files req ''file'' = Some f"
      and name: "file_name f \<noteq> []"
      and body: "content_length req \<le> max_file_size app"
  shows "upload app st req hexdigest =
     (case file_save (disk st) (os_path_join (UPLOAD_FOLDER app)
               (generate_unique_filename (file_name f) hexdigest)) (file_data f) of
        Inl e \<Rightarrow> (st, Unhandled e)
      | Inr disk' \<Rightarrow>
          (st\<lparr>disk := disk'\<rparr>,
           Redirect ''list_files'' (Uploaded (generate_unique_filename (file_name f) hexdigest))))"
proof -
  from f have "f \<in> ran (files req)" by (auto simp: ran_def)
  with mp have "int (length (file_data f)) < content_length req"
    by (simp add: multipart_request_def)
  with body have "\<not> max_file_size app < int (length (file_data f))" by simp
  with f name body show ?thesis
    by (simp add: upload_def request_files_def MAX_CONTENT_LENGTH_def Let_def)
qed

lemma upload_over_body_limit:
  assumes "max_file_size app < content_length req"
  shows "upload app st req hexdigest = (st, RequestEntityTooLarge)"
  using assms by (simp add: upload_def request_files_def MAX_CONTENT_LENGTH_def)

lemma big_name: "generate_unique_filename ''big.bin'' sample_digest = ''big_d41d8cd98f.bin''"
  by code_simp

lemma big_resolves:
  "resolve uploads_disk ''uploads/big_d41d8cd98f.bin''
     = Inr [''srv'', ''fileshare'', ''uploads'', ''big_d41d8cd98f.bin'']"
  by (simp add: resolve_def uploads_disk_def bare_disk_def node_at_def NAME_MAX_def PATH_MAX_def)

lemma big_absent:
  "node_at uploads_disk [''srv'', ''fileshare'', ''uploads'', ''big_d41d8cd98f.bin''] = None"
  by (simp add: uploads_disk_def bare_disk_def node_at_def)

lemma evil_resolves:
  "resolve uploads_disk ''uploads/../evil_d41d8cd98f.txt''
     = Inr [''srv'', ''fileshare'', ''evil_d41d8cd98f.txt'']"
  by (simp add: resolve_def uploads_disk_def bare_disk_def node_at_def NAME_MAX_def PATH_MAX_def)

lemma evil_absent:
  "node_at uploads_disk [''srv'', ''fileshare'', ''evil_d41d8cd98f.txt''] = None"
  by (simp add: uploads_disk_def bare_disk_def node_at_def)

text \<open>A client file name of 255 bytes gives a stored name of 266 bytes, which the file
  system refuses: the request is answered with 500 and nothing is written.\<close>

lemma long_name:
  "generate_unique_filename (replicate 255 CHR ''a'') sample_digest
     = replicate 255 CHR ''a'' @ ''_d41d8cd98f''"
  by code_simp

lemma long_name_unresolved:
  "resolve uploads_disk (''uploads/'' @ replicate 255 CHR ''a'' @ ''_d41d8cd98f'')
     = Inl NameTooLong"
  by code_simp

lemma upload_save_fails:
  assumes "content_length req \<le> max_file_size app"
      and "files req ''file'' = Some f" and "file_name f \<noteq> []"
      and "int (length (file_data f)) \<le> max_file_size app"
      and "file_save (disk st) (os_path_join (UPLOAD_FOLDER app)
             (generate_unique_filename (file_name f) hexdigest)) (file_data f) = Inl e"
  shows "upload app st req hexdigest = (st, Unhandled e)"
  using assms by (simp add: upload_def request_files_def MAX_CONTENT_LENGTH_def Let_def)

lemma long_name_refused:
  "upload default_app empty_folder
     \<lparr>content_length = 7 + 445,
      files = [''file'' \<mapsto> \<lparr>file_name = replicate 255 CHR ''a'', file_data = ''payload''\<rparr>]\<rparr>
     sample_digest
   = (empty_folder, Unhandled NameTooLong)"
proof (rule upload_save_fails
    [where f = "\<lparr>file_name = replicate 255 CHR ''a'', file_data = ''payload''\<rparr>"])
  let ?f = "\<lparr>file_name = replicate 255 CHR ''a'', file_data = ''payload''\<rparr>"
  let ?req = "\<lparr>content_length = 7 + 445, files = [''file'' \<mapsto> ?f]\<rparr>"
  show "content_length ?req \<le> max_file_size default_app"
    by (simp add: default_app_def)
  show "files ?req ''file'' = Some ?f" by simp
  show "file_name ?f \<noteq> []" by simp
  show "int (length (file_data ?f)) \<le> max_file_size default_app"
    by (simp add: default_app_def)
  have n: "file_name ?f = replicate 255 CHR ''a''" and d: "file_data ?f = ''payload''"
    by simp_all
  have p: "os_path_join (UPLOAD_FOLDER default_app) (replicate 255 CHR ''a'' @ ''_d41d8cd98f'')
      = ''uploads/'' @ replicate 255 CHR ''a'' @ ''_d41d8cd98f''"
    by (simp add: os_path_join_def UPLOAD_FOLDER_def default_app_def)
  have e: "disk empty_folder = uploads_disk" by (simp add: empty_folder_def)
  have s: "file_save uploads_disk (''uploads/'' @ replicate 255 CHR ''a'' @ ''_d41d8cd98f'')
      ''payload'' = Inl NameTooLong"
    unfolding file_save_def long_name_unresolved by simp
  show "file_save (disk empty_folder) (os_path_join (UPLOAD_FOLDER default_app)
        (generate_unique_filename (file_name ?f) sample_digest)) (file_data ?f)
      = Inl NameTooLong"
    unfolding n d long_name p e by (rule s)
qed

section \<open>The properties of the specification\<close>

subsection \<open>Stored names and path traversal\<close>

text \<open>
  C1. The stored name that \<open>upload\<close> uses as the on-disk path should hold no directory
  separator and permit no traversal out of the storage root. The deduplicator does not
  sanitise: for the client file name \<^verbatim>\<open>../evil.txt\<close> it returns
  \<^verbatim>\<open>../evil_d41d8cd98f.txt\<close>, which is not syntactically safe, and in the state the
  constructor leaves \<open>upload\<close> writes the file through the path
  \<^verbatim>\<open>uploads/../evil_d41d8cd98f.txt\<close>, whose directory part is the parent of the upload
  folder: the file lands in the working directory, beside the upload folder and not in
  it. For an absolute client file name the path leaves the upload folder altogether.
\<close>

theorem traversal_name_kept_by_upload:
  "generate_unique_filename ''../evil.txt'' sample_digest = ''../evil_d41d8cd98f.txt''
   \<and> \<not> syntactically_safe (generate_unique_filename ''../evil.txt'' sample_digest)
   \<and> init default_app bare_disk = Inr empty_folder
   \<and> resolve (disk empty_folder) (UPLOAD_FOLDER default_app)
       = Inr [''srv'', ''fileshare'', ''uploads'']
   \<and> upload default_app empty_folder
        \<lparr>content_length = 7 + 190,
         files = [''file'' \<mapsto> \<lparr>file_name = ''../evil.txt'', file_data = ''payload''\<rparr>]\<rparr>
        sample_digest
     = (empty_folder\<lparr>disk := uploads_disk\<lparr>nodes := (nodes uploads_disk)
           ([''srv'', ''fileshare'', ''evil_d41d8cd98f.txt''] \<mapsto> RegularFile ''payload'')\<rparr>\<rparr>,
        Redirect ''list_files'' (Uploaded ''../evil_d41d8cd98f.txt''))
   \<and> dirname ''uploads/../evil_d41d8cd98f.txt'' = ''uploads/..''
   \<and> os_path_join (UPLOAD_FOLDER default_app)
        (generate_unique_filename ''/tmp/evil.txt'' sample_digest)
     = ''/tmp/evil_d41d8cd98f.txt''"
proof -
  have "file_save uploads_disk ''uploads/../evil_d41d8cd98f.txt'' ''payload''
      = Inr (uploads_disk\<lparr>nodes := (nodes uploads_disk)
           ([''srv'', ''fileshare'', ''evil_d41d8cd98f.txt''] \<mapsto> RegularFile ''payload'')\<rparr>)"
    by (simp add: file_save_def evil_resolves evil_absent)
  then have "upload default_app empty_folder
        \<lparr>content_length = 7 + 190,
         files = [''file'' \<mapsto> \<lparr>file_name = ''../evil.txt'', file_data = ''payload''\<rparr>]\<rparr>
        sample_digest
     = (empty_folder\<lparr>disk := uploads_disk\<lparr>nodes := (nodes uploads_disk)
           ([''srv'', ''fileshare'', ''evil_d41d8cd98f.txt''] \<mapsto> RegularFile ''payload'')\<rparr>\<rparr>,
        Redirect ''list_files'' (Uploaded ''../evil_d41d8cd98f.txt''))"
    by (simp add: upload_def request_files_def MAX_CONTENT_LENGTH_def UPLOAD_FOLDER_def
        default_app_def os_path_join_def evil_name empty_folder_def Let_def)
  moreover have "\<not> syntactically_safe (generate_unique_filename ''../evil.txt'' sample_digest)"
    by (simp add: evil_name syntactically_safe_def)
  moreover have "os_path_join (UPLOAD_FOLDER default_app)
        (generate_unique_filename ''/tmp/evil.txt'' sample_digest) = ''/tmp/evil_d41d8cd98f.txt''"
    by (simp add: absolute_name os_path_join_def)
  moreover have "resolve (disk empty_folder) (UPLOAD_FOLDER default_app)
       = Inr [''srv'', ''fileshare'', ''uploads'']"
    by (simp add: empty_folder_def uploads_resolves)
  ultimately show ?thesis
    using evil_name init_sample evil_dirname by simp
qed

subsection \<open>Resolving an expired token\<close>

text \<open>
  C2. For a token in the share registry, \<open>shared_download\<close> at a time strictly greater
  than the entry's \<open>expires_at\<close> aborts with 410 and removes the entry; a later
  \<open>shared_download\<close> of the same token, after any requests that do not store that share
  id again, aborts with 404. Eviction happens on access only: whatever single request
  makes the entry disappear is a \<open>shared_download\<close> of that token later than its expiry.
\<close>

theorem expired_token_evicted_on_access:
  assumes "shared_links st share_id = Some e" and "expires_at e < now"
  shows "shared_download app st share_id now =
           (st\<lparr>shared_links := (shared_links st)(share_id := None)\<rparr>,
            Abort 410 ''Sharing link has expired'')
       \<and> (\<forall>ops now'. (\<forall>name t1 t2. Op_share_file name share_id t1 t2 \<notin> set ops) \<longrightarrow>
            shared_download app (run app (fst (shared_download app st share_id now)) ops)
                share_id now'
              = (run app (fst (shared_download app st share_id now)) ops,
                 Abort 404 ''Invalid or expired sharing link''))
       \<and> (\<forall>op. shared_links (fst (step app st op)) share_id = None \<longrightarrow>
            (\<exists>t. op = Op_shared_download share_id t \<and> expires_at e < t))"
proof (intro conjI allI impI)
  show first: "shared_download app st share_id now =
      (st\<lparr>shared_links := (shared_links st)(share_id := None)\<rparr>,
       Abort 410 ''Sharing link has expired'')"
    using assms by (simp add: shared_download_def)
  fix ops now'
  assume "\<forall>name t1 t2. Op_share_file name share_id t1 t2 \<notin> set ops"
  moreover have "shared_links (fst (shared_download app st share_id now)) share_id = None"
    by (simp add: first)
  ultimately
  have "shared_links (run app (fst (shared_download app st share_id now)) ops) share_id = None"
    by (rule absent_run [rotated])
  then show "shared_download app (run app (fst (shared_download app st share_id now)) ops)
        share_id now'
      = (run app (fst (shared_download app st share_id now)) ops,
         Abort 404 ''Invalid or expired sharing link'')"
    by (simp add: shared_download_def)
next
  fix op
  assume "shared_links (fst (step app st op)) share_id = None"
  with assms(1) show "\<exists>t. op = Op_shared_download share_id t \<and> expires_at e < t"
    by (rule evicted_only_by_expired_access)
qed

theorem expired_token_evicted_on_access_witness:
  "shared_links report_shared sample_share_id = Some report_link
   \<and> expires_at report_link < 1000001 + timedelta_days 8
   \<and> shared_download default_app report_shared sample_share_id (1000001 + timedelta_days 8)
     = (report_stored, Abort 410 ''Sharing link has expired'')
   \<and> shared_download default_app report_stored sample_share_id (1000002 + timedelta_days 8)
     = (report_stored, Abort 404 ''Invalid or expired sharing link'')"
proof -
  have h2: "expires_at report_link < 1000001 + timedelta_days 8"
    by (simp add: report_link_def timedelta_days_def)
  have s: "report_shared\<lparr>shared_links := (shared_links report_shared)(sample_share_id := None)\<rparr>
      = report_stored"
    by (simp add: report_shared_def report_stored_def)
  note t = expired_token_evicted_on_access [OF report_shared_link h2, of default_app]
  from t have a: "shared_download default_app report_shared sample_share_id
        (1000001 + timedelta_days 8)
      = (report_stored, Abort 410 ''Sharing link has expired'')"
    by (simp add: s)
  from t [THEN conjunct2, THEN conjunct1, rule_format, of "[]" "1000002 + timedelta_days 8"]
  have b: "shared_download default_app report_stored sample_share_id (1000002 + timedelta_days 8)
      = (report_stored, Abort 404 ''Invalid or expired sharing link'')"
    by (simp add: run_def a)
  from a b show ?thesis using report_shared_link h2 by simp
qed

subsection \<open>Expiry of an entry\<close>

text \<open>
  C3, as the code has it. Every entry found in the share registry after any sequence of
  requests is exactly the entry that some \<open>share_file\<close> request of the sequence stored
  under that share id, whatever the other requests were: its \<open>created_at\<close> is that
  request's first clock reading and its \<open>expires_at\<close> is that request's second clock
  reading plus 7 days, so \<open>expires_at\<close> is \<open>created_at\<close> plus 7 days plus the time
  between the two readings. No other operation changes an entry: after a single request
  an entry is as it was before, or the request is the \<open>share_file\<close> that stored it. When
  the clock did not run backwards between the two readings of that request,
  \<open>expires_at\<close> is at least \<open>created_at\<close> plus 7 days, hence strictly greater than
  \<open>created_at\<close>.
\<close>

theorem share_links_expiry:
  assumes "init app d = Inr st0"
      and "shared_links (run app st0 ops) sid = Some e"
  shows "(\<exists>name t1 t2. Op_share_file name sid t1 t2 \<in> set ops
           \<and> e = \<lparr>filename = name, created_at = t1, expires_at = t2 + timedelta_days 7\<rparr>
           \<and> expires_at e = created_at e + timedelta_days 7 + (t2 - t1)
           \<and> (t1 \<le> t2 \<longrightarrow> created_at e + timedelta_days 7 \<le> expires_at e
                          \<and> created_at e < expires_at e))
       \<and> (\<forall>st op e'. shared_links (fst (step app st op)) sid = Some e' \<longrightarrow>
             shared_links st sid = Some e'
             \<or> (\<exists>name t1 t2. op = Op_share_file name sid t1 t2
                  \<and> e' = \<lparr>filename = name, created_at = t1,
                           expires_at = t2 + timedelta_days 7\<rparr>))"
proof -
  from assms(1) have "shared_links st0 = Map.empty" by (rule init_shared_links)
  from entries_as_created [OF this assms(2)]
  obtain name t1 t2 where m: "Op_share_file name sid t1 t2 \<in> set ops"
    and e: "e = \<lparr>filename = name, created_at = t1, expires_at = t2 + timedelta_days 7\<rparr>"
    by blast
  from e have d: "expires_at e = created_at e + timedelta_days 7 + (t2 - t1)" by simp
  have "0 < timedelta_days 7" by (simp add: timedelta_days_def)
  with d have "t1 \<le> t2 \<longrightarrow> created_at e + timedelta_days 7 \<le> expires_at e
      \<and> created_at e < expires_at e"
    by simp
  with m e d have "\<exists>name t1 t2. Op_share_file name sid t1 t2 \<in> set ops
      \<and> e = \<lparr>filename = name, created_at = t1, expires_at = t2 + timedelta_days 7\<rparr>
      \<and> expires_at e = created_at e + timedelta_days 7 + (t2 - t1)
      \<and> (t1 \<le> t2 \<longrightarrow> created_at e + timedelta_days 7 \<le> expires_at e
            \<and> created_at e < expires_at e)"
    by blast
  then show ?thesis using step_shared_links by blast
qed

text \<open>In the sample history another share link is made with the clock running backwards;
  the entry of the sample link is as its own request stored it.\<close>

theorem share_links_expiry_witness:
  "init default_app bare_disk = Inr empty_folder
   \<and> shared_links (run default_app empty_folder
        [Op_upload report_upload sample_digest,
         Op_share_file ''report_d41d8cd98f.pdf'' ''another-share-id'' 5 4,
         Op_share_file ''report_d41d8cd98f.pdf'' sample_share_id 1000000 1000001]) sample_share_id
     = Some report_link
   \<and> created_at report_link + timedelta_days 7 \<le> expires_at report_link
   \<and> created_at report_link < expires_at report_link"
proof -
  let ?ops = "[Op_upload report_upload sample_digest,
         Op_share_file ''report_d41d8cd98f.pdf'' ''another-share-id'' 5 4,
         Op_share_file ''report_d41d8cd98f.pdf'' sample_share_id 1000000 1000001]"
  have other: "share_file default_app report_stored ''report_d41d8cd98f.pdf''
        ''another-share-id'' 5 4
      = (report_stored\<lparr>shared_links := [''another-share-id'' \<mapsto>
            \<lparr>filename = ''report_d41d8cd98f.pdf'', created_at = 5,
             expires_at = 4 + timedelta_days 7\<rparr>]\<rparr>,
         Render (Share_html ''report_d41d8cd98f.pdf'' ''another-share-id'' 7) 200)"
    using stored_exists [OF report_stored_file]
    by (simp add: share_file_def report_stored_def Let_def)
  have exists: "os_path_exists report_disk
      (os_path_join (UPLOAD_FOLDER default_app) ''report_d41d8cd98f.pdf'')"
    using stored_exists [OF report_stored_file] by (simp add: report_stored_def)
  have h2: "shared_links (run default_app empty_folder ?ops) sample_share_id = Some report_link"
    using exists
    by (simp add: run_def upload_report other share_file_def report_stored_def report_link_def
        Let_def)
  from share_links_expiry [OF init_sample h2]
  obtain name t1 t2 where
    e: "report_link = \<lparr>filename = name, created_at = t1, expires_at = t2 + timedelta_days 7\<rparr>"
    and c: "t1 \<le> t2 \<longrightarrow> created_at report_link + timedelta_days 7 \<le> expires_at report_link
        \<and> created_at report_link < expires_at report_link"
    by blast
  from e have "t1 = 1000000" and "t2 = 1000001"
    by (simp_all add: report_link_def)
  with c have "created_at report_link + timedelta_days 7 \<le> expires_at report_link
      \<and> created_at report_link < expires_at report_link"
    by simp
  with init_sample h2 show ?thesis by simp
qed

text \<open>The two clock readings of one \<open>share_file\<close> request are a microsecond apart here,
  and \<open>expires_at\<close> is not \<open>created_at\<close> plus 7 days.\<close>

theorem expiry_not_created_plus_ttl_counterexample:
  "shared_links (fst (share_file default_app report_stored ''report_d41d8cd98f.pdf''
       sample_share_id 1000000 1000001)) sample_share_id
     = Some \<lparr>filename = ''report_d41d8cd98f.pdf'', created_at = 1000000,
             expires_at = 604801000001\<rparr>
   \<and> expires_at \<lparr>filename = ''report_d41d8cd98f.pdf'', created_at = 1000000,
                  expires_at = 604801000001\<rparr>
       \<noteq> created_at \<lparr>filename = ''report_d41d8cd98f.pdf'', created_at = 1000000,
                       expires_at = 604801000001\<rparr> + timedelta_days 7"
  by (simp add: share_report report_shared_def report_link_def timedelta_days_def)

subsection \<open>Deleting a shared file\<close>

text \<open>
  C4. \<open>delete_file\<close> leaves the share registry as it is. When it removes a stored file,
  a token that refers to the file stays registered with the same entry, and a later
  \<open>shared_download\<close> of the token up to its expiry passes the registry lookup (the state
  is returned unchanged) and aborts with the 404 of the storage layer (line 158), since
  the file is missing.
\<close>

theorem delete_keeps_share_links:
  "shared_links (fst (delete_file app st name)) = shared_links st
   \<and> (stored (disk st) (os_path_join (UPLOAD_FOLDER app) name) content \<longrightarrow>
      shared_links st share_id = Some e \<longrightarrow> filename e = name \<longrightarrow> now \<le> expires_at e \<longrightarrow>
        snd (delete_file app st name) = Redirect ''list_files'' (Deleted name)
        \<and> \<not> os_path_exists (disk (fst (delete_file app st name)))
              (os_path_join (UPLOAD_FOLDER app) name)
        \<and> shared_links (fst (delete_file app st name)) share_id = Some e
        \<and> shared_download app (fst (delete_file app st name)) share_id now
            = (fst (delete_file app st name), Abort 404 ''File not found''))"
proof (intro conjI impI)
  show "shared_links (fst (delete_file app st name)) = shared_links st"
    by (rule delete_file_shared_links)
next
  assume f: "stored (disk st) (os_path_join (UPLOAD_FOLDER app) name) content"
  then obtain fs' where
    r: "os_remove (disk st) (os_path_join (UPLOAD_FOLDER app) name) = Inr fs'"
    using stored_remove by blast
  with f have d: "delete_file app st name =
      (st\<lparr>disk := fs'\<rparr>, Redirect ''list_files'' (Deleted name))"
    by (simp add: delete_file_def stored_exists Let_def)
  show "snd (delete_file app st name) = Redirect ''list_files'' (Deleted name)"
    by (simp add: d)
  show "\<not> os_path_exists (disk (fst (delete_file app st name)))
      (os_path_join (UPLOAD_FOLDER app) name)"
    using os_remove_gone(2) [OF r] by (simp add: d)
  assume e: "shared_links st share_id = Some e" "filename e = name" "now \<le> expires_at e"
  show "shared_links (fst (delete_file app st name)) share_id = Some e"
    by (simp add: d e)
  show "shared_download app (fst (delete_file app st name)) share_id now
      = (fst (delete_file app st name), Abort 404 ''File not found'')"
    using e os_remove_gone(1) [OF r] by (simp add: d shared_download_def Let_def)
qed

theorem delete_keeps_share_links_witness:
  "stored (disk report_shared)
       (os_path_join (UPLOAD_FOLDER default_app) ''report_d41d8cd98f.pdf'')
       (replicate 10240 CHR ''r'')
   \<and> shared_links report_shared sample_share_id = Some report_link
   \<and> filename report_link = ''report_d41d8cd98f.pdf''
   \<and> (2000000::int) \<le> expires_at report_link
   \<and> shared_links (fst (delete_file default_app report_shared ''report_d41d8cd98f.pdf''))
       = shared_links report_shared
   \<and> shared_download default_app
        (fst (delete_file default_app report_shared ''report_d41d8cd98f.pdf''))
        sample_share_id 2000000
     = (fst (delete_file default_app report_shared ''report_d41d8cd98f.pdf''),
        Abort 404 ''File not found'')"
proof -
  have h3: "filename report_link = ''report_d41d8cd98f.pdf''"
    by (simp add: report_link_def)
  have h4: "(2000000::int) \<le> expires_at report_link"
    by (simp add: report_link_def timedelta_days_def)
  from delete_keeps_share_links [of default_app report_shared "''report_d41d8cd98f.pdf''"
      "replicate 10240 CHR ''r''" sample_share_id report_link 2000000]
    report_shared_file report_shared_link h3 h4
  show ?thesis by blast
qed

subsection \<open>Resolving an unknown token\<close>

text \<open>
  C5. For every token that is not in the share registry, \<open>shared_download\<close> aborts with
  404 and returns the state as it was: the registry and the storage directory are
  unchanged.
\<close>

theorem unknown_token_not_found:
  assumes "shared_links st share_id = None"
  shows "shared_download app st share_id now = (st, Abort 404 ''Invalid or expired sharing link'')
         \<and> status (snd (shared_download app st share_id now)) = 404
         \<and> shared_links (fst (shared_download app st share_id now)) = shared_links st
         \<and> disk (fst (shared_download app st share_id now)) = disk st"
  using assms by (simp add: shared_download_def)

theorem unknown_token_not_found_witness:
  "shared_links report_stored ''never-issued'' = None
   \<and> shared_download default_app report_stored ''never-issued'' 0
      = (report_stored, Abort 404 ''Invalid or expired sharing link'')"
proof -
  have h: "shared_links report_stored ''never-issued'' = None"
    by (simp add: report_stored_def)
  from unknown_token_not_found [OF h, of default_app 0] h show ?thesis by simp
qed

subsection \<open>Uploads over the size limit\<close>

text \<open>
  C6. An upload whose file content is strictly larger than the configured maximum is
  answered with status 400 or 413, and the state, the storage directory in particular, is
  returned unchanged: nothing is written.
\<close>

theorem oversized_upload_rejected:
  assumes "files req ''file'' = Some f"
      and "max_file_size app < int (length (file_data f))"
  shows "fst (upload app st req hexdigest) = st
         \<and> (status (snd (upload app st req hexdigest)) = 400
            \<or> status (snd (upload app st req hexdigest)) = 413)"
  using assms by (simp add: upload_def request_files_def)

theorem oversized_upload_rejected_witness:
  "files \<lparr>content_length = 2097152 + 190,
          files = [''file'' \<mapsto> \<lparr>file_name = ''big.bin'',
                                 file_data = replicate 2097152 CHR ''x''\<rparr>]\<rparr> ''file''
     = Some \<lparr>file_name = ''big.bin'', file_data = replicate 2097152 CHR ''x''\<rparr>
   \<and> max_file_size \<lparr>upload_folder = ''uploads'', max_file_size = 1048576\<rparr>
       < int (length (file_data \<lparr>file_name = ''big.bin'',
                                 file_data = replicate 2097152 CHR ''x''\<rparr>))
   \<and> fst (upload \<lparr>upload_folder = ''uploads'', max_file_size = 1048576\<rparr> empty_folder
        \<lparr>content_length = 2097152 + 190,
         files = [''file'' \<mapsto> \<lparr>file_name = ''big.bin'',
                                file_data = replicate 2097152 CHR ''x''\<rparr>]\<rparr> sample_digest)
     = empty_folder
   \<and> (status (snd (upload \<lparr>upload_folder = ''uploads'', max_file_size = 1048576\<rparr> empty_folder
        \<lparr>content_length = 2097152 + 190,
         files = [''file'' \<mapsto> \<lparr>file_name = ''big.bin'',
                                file_data = replicate 2097152 CHR ''x''\<rparr>]\<rparr> sample_digest)) = 400
      \<or> status (snd (upload \<lparr>upload_folder = ''uploads'', max_file_size = 1048576\<rparr> empty_folder
        \<lparr>content_length = 2097152 + 190,
         files = [''file'' \<mapsto> \<lparr>file_name = ''big.bin'',
                                file_data = replicate 2097152 CHR ''x''\<rparr>]\<rparr> sample_digest)) = 413)"
proof -
  have h1: "files \<lparr>content_length = 2097152 + 190,
          files = [''file'' \<mapsto> \<lparr>file_name = ''big.bin'',
                                 file_data = replicate 2097152 CHR ''x''\<rparr>]\<rparr> ''file''
     = Some \<lparr>file_name = ''big.bin'', file_data = replicate 2097152 CHR ''x''\<rparr>"
    by simp
  have h2: "max_file_size \<lparr>upload_folder = ''uploads'', max_file_size = 1048576\<rparr>
       < int (length (file_data \<lparr>file_name = ''big.bin'',
                                 file_data = replicate 2097152 CHR ''x''\<rparr>))"
    by simp
  from oversized_upload_rejected [OF h1 h2, of empty_folder sample_digest] h1 h2
  show ?thesis by (intro conjI) blast+
qed

subsection \<open>Creating a share link\<close>



subsection \<open>The size of the suffix space\<close>

text \<open>
  C8, as the code has it. The suffix that the deduplicator puts between stem and extension
  is ten hexadecimal digits, the start of an MD5 digest. So for every requested file
  name the stored names that the digests can give are \<open>16 ^ 10 = 2 ^ 40\<close> in number, and
  any set of digests gives at most \<open>2 ^ 40\<close> stored names: 40 bits, not 64.
\<close>

theorem unique_hash_has_forty_bits:
  "(\<forall>h. md5_hexdigest h \<longrightarrow>
      (\<exists>u. set u \<subseteq> hexdigits \<and> length u = 10
         \<and> generate_unique_filename original_filename h
             = fst (splitext original_filename) @ ''_'' @ u @ snd (splitext original_filename)))
   \<and> card (generate_unique_filename original_filename ` {h. md5_hexdigest h}) = 2 ^ 40
   \<and> (\<forall>H. H \<subseteq> {h. md5_hexdigest h} \<longrightarrow>
         card (generate_unique_filename original_filename ` H) \<le> 2 ^ 40)"
proof (intro conjI allI impI)
  fix h assume "md5_hexdigest h"
  then have "set (take 10 h) \<subseteq> hexdigits \<and> length (take 10 h) = 10"
    using take_hexdigest by simp
  then show "\<exists>u. set u \<subseteq> hexdigits \<and> length u = 10
      \<and> generate_unique_filename original_filename h
          = fst (splitext original_filename) @ ''_'' @ u @ snd (splitext original_filename)"
    using generate_unique_filename_eq by blast
next
  show "card (generate_unique_filename original_filename ` {h. md5_hexdigest h}) = 2 ^ 40"
    by (rule card_stored_names)
next
  fix H assume "H \<subseteq> {h. md5_hexdigest h}"
  then show "card (generate_unique_filename original_filename ` H) \<le> 2 ^ 40"
    by (rule card_stored_names_le)
qed

theorem unique_hash_has_forty_bits_witness:
  "md5_hexdigest sample_digest
   \<and> {sample_digest} \<subseteq> {h. md5_hexdigest h}
   \<and> generate_unique_filename ''report.pdf'' sample_digest = ''report_d41d8cd98f.pdf''
   \<and> card (generate_unique_filename ''report.pdf'' ` {h. md5_hexdigest h}) = 2 ^ 40
   \<and> card (generate_unique_filename ''report.pdf'' ` {sample_digest}) \<le> 2 ^ 40"
proof -
  have h: "{sample_digest} \<subseteq> {h. md5_hexdigest h}"
    using sample_digest_ok by simp
  from unique_hash_has_forty_bits [of "''report.pdf''"] h
  have "card (generate_unique_filename ''report.pdf'' ` {h. md5_hexdigest h}) = 2 ^ 40"
    and "card (generate_unique_filename ''report.pdf'' ` {sample_digest}) \<le> 2 ^ 40"
    by blast+
  then show ?thesis using sample_digest_ok h report_name by blast
qed

text \<open>For \<^verbatim>\<open>report.pdf\<close> the stored names are fewer than \<open>2 ^ 64\<close>.\<close>

theorem unique_hash_below_64_bits_counterexample:
  "\<not> 2 ^ 64 \<le> card (generate_unique_filename ''report.pdf'' ` {h. md5_hexdigest h})"
proof -
  have "(2::nat) ^ 40 < 2 ^ 64" by (rule power_strict_increasing) simp_all
  then show ?thesis unfolding card_stored_names by (simp only: not_le)
qed

subsection \<open>The instant of expiry\<close>

text \<open>
  C9. At the instant that equals a registered token's \<open>expires_at\<close>, \<open>shared_download\<close>
  of a token whose file is stored sends the file and returns the state unchanged, the
  entry included. The comparison is strict: the answer is 410 exactly when the time is
  strictly greater than \<open>expires_at\<close>.
\<close>

theorem resolve_at_expiry_instant:
  assumes "shared_links st share_id = Some e"
      and "stored (disk st) (os_path_join (UPLOAD_FOLDER app) (filename e)) content"
  shows "shared_download app st share_id (expires_at e) = (st, Attachment content)
         \<and> shared_links (fst (shared_download app st share_id (expires_at e))) share_id = Some e
         \<and> (\<forall>now. status (snd (shared_download app st share_id now)) = 410
                \<longleftrightarrow> expires_at e < now)"
proof -
  from assms(2)
  have "send_file (disk st) (os_path_join (UPLOAD_FOLDER app) (filename e)) = Inr content"
    by (simp add: stored_send_file)
  with assms(1) show ?thesis by (simp add: shared_download_def Let_def)
qed

theorem resolve_at_expiry_instant_witness:
  "shared_links report_shared sample_share_id = Some report_link
   \<and> stored (disk report_shared)
       (os_path_join (UPLOAD_FOLDER default_app) (filename report_link))
       (replicate 10240 CHR ''r'')
   \<and> shared_download default_app report_shared sample_share_id (1000001 + timedelta_days 7)
       = (report_shared, Attachment (replicate 10240 CHR ''r''))"
proof -
  have h2: "stored (disk report_shared)
       (os_path_join (UPLOAD_FOLDER default_app) (filename report_link))
       (replicate 10240 CHR ''r'')"
    using report_shared_file by (simp add: report_link_def)
  have "expires_at report_link = 1000001 + timedelta_days 7"
    by (simp add: report_link_def)
  with resolve_at_expiry_instant [OF report_shared_link h2] report_shared_link h2
  show ?thesis by simp
qed

subsection \<open>Uploads at the size limit\<close>

text \<open>
  C10, as the code has it. The limit that decides is on the length of the request body,
  not on the size of the file. Take a multipart request with a part \<^verbatim>\<open>file\<close> whose
  client file name is not empty, and let the target path (the upload folder joined with
  the deduplicated name) resolve to a location that is not a directory. If the body is
  no longer than the configured maximum, the boundary included, the upload is accepted:
  the content is written to that location, where the path then names a regular file with
  the uploaded bytes, and the handler redirects to the list page. If the body is longer
  than the maximum, the request is refused with 413 when \<^verbatim>\<open>request.files\<close> is read and
  nothing is written. The body is longer than the file it carries, so an upload whose
  content has exactly the maximum size is refused with 413, and the size check of the
  handler itself (line 62) is never the one that answers such a request.
\<close>

theorem upload_accepted_up_to_max_body:
  "(multipart_request req \<longrightarrow> files req ''file'' = Some f \<longrightarrow> file_name f \<noteq> [] \<longrightarrow>
    resolve (disk st) (os_path_join (UPLOAD_FOLDER app)
       (generate_unique_filename (file_name f) hexdigest)) = Inr loc \<longrightarrow>
    node_at (disk st) loc \<noteq> Some Directory \<longrightarrow>
    content_length req \<le> max_file_size app \<longrightarrow>
      upload app st req hexdigest =
        (st\<lparr>disk := (disk st)\<lparr>nodes := (nodes (disk st))
               (loc \<mapsto> RegularFile (file_data f))\<rparr>\<rparr>,
         Redirect ''list_files''
           (Uploaded (generate_unique_filename (file_name f) hexdigest)))
      \<and> stored (disk (fst (upload app st req hexdigest)))
          (os_path_join (UPLOAD_FOLDER app)
             (generate_unique_filename (file_name f) hexdigest)) (file_data f))
   \<and> (max_file_size app < content_length req \<longrightarrow>
        upload app st req hexdigest = (st, RequestEntityTooLarge))
   \<and> (multipart_request req \<longrightarrow> files req ''file'' = Some f \<longrightarrow>
      int (length (file_data f)) = max_file_size app \<longrightarrow>
        upload app st req hexdigest = (st, RequestEntityTooLarge))
   \<and> (multipart_request req \<longrightarrow> files req ''file'' = Some f \<longrightarrow>
        snd (upload app st req hexdigest)
          \<noteq> Render (Index_html (Some (File_too_large (max_file_size app)))) 400)"
proof (intro conjI impI)
  let ?path = "os_path_join (UPLOAD_FOLDER app) (generate_unique_filename (file_name f) hexdigest)"
  let ?disk' = "(disk st)\<lparr>nodes := (nodes (disk st))(loc \<mapsto> RegularFile (file_data f))\<rparr>"
  {
    assume mp: "multipart_request req" and f: "files req ''file'' = Some f"
      and name: "file_name f \<noteq> []"
      and r: "resolve (disk st) ?path = Inr loc"
      and n: "node_at (disk st) loc \<noteq> Some Directory"
      and body: "content_length req \<le> max_file_size app"
    show accepted: "upload app st req hexdigest =
        (st\<lparr>disk := ?disk'\<rparr>,
         Redirect ''list_files'' (Uploaded (generate_unique_filename (file_name f) hexdigest)))"
      using upload_within_body_limit [OF mp f name body, of st hexdigest]
        file_save_written [OF r n, of "file_data f"]
      by simp
    show "stored (disk (fst (upload app st req hexdigest))) ?path (file_data f)"
      using accepted write_stored [OF r n, of "file_data f"] by simp
  }
  {
    assume "max_file_size app < content_length req"
    then show "upload app st req hexdigest = (st, RequestEntityTooLarge)"
      by (rule upload_over_body_limit)
  }
  {
    assume "multipart_request req" and "files req ''file'' = Some f"
      and "int (length (file_data f)) = max_file_size app"
    then show "upload app st req hexdigest = (st, RequestEntityTooLarge)"
      by (rule exact_max_hits_gate)
  }
  {
    assume mp: "multipart_request req" and f: "files req ''file'' = Some f"
    show "snd (upload app st req hexdigest)
        \<noteq> Render (Index_html (Some (File_too_large (max_file_size app)))) 400"
    proof (cases "content_length req \<le> max_file_size app")
      case False
      then show ?thesis by (simp add: upload_over_body_limit)
    next
      case body: True
      show ?thesis
      proof (cases "file_name f = []")
        case True
        with f body show ?thesis
          by (simp add: upload_def request_files_def MAX_CONTENT_LENGTH_def)
      next
        case False
        then show ?thesis
          by (simp add: upload_within_body_limit [OF mp f False body] split: sum.splits)
      qed
    qed
  }
qed

text \<open>A request whose body has exactly the default maximum, 16 MiB, of which the file is
  all but the 190 bytes around it: it is accepted and written.\<close>

theorem upload_accepted_up_to_max_body_witness:
  "multipart_request
     \<lparr>content_length = 16777216,
      files = [''file'' \<mapsto> \<lparr>file_name = ''big.bin'', file_data = replicate 16777026 CHR ''x''\<rparr>]\<rparr>
   \<and> resolve (disk empty_folder) (os_path_join (UPLOAD_FOLDER default_app)
        (generate_unique_filename ''big.bin'' sample_digest))
     = Inr [''srv'', ''fileshare'', ''uploads'', ''big_d41d8cd98f.bin'']
   \<and> node_at (disk empty_folder) [''srv'', ''fileshare'', ''uploads'', ''big_d41d8cd98f.bin'']
       \<noteq> Some Directory
   \<and> (16777216::int) \<le> max_file_size default_app
   \<and> upload default_app empty_folder
       \<lparr>content_length = 16777216,
        files = [''file'' \<mapsto> \<lparr>file_name = ''big.bin'', file_data = replicate 16777026 CHR ''x''\<rparr>]\<rparr>
       sample_digest
     = (empty_folder\<lparr>disk := uploads_disk\<lparr>nodes := (nodes uploads_disk)
           ([''srv'', ''fileshare'', ''uploads'', ''big_d41d8cd98f.bin'']
              \<mapsto> RegularFile (replicate 16777026 CHR ''x''))\<rparr>\<rparr>,
        Redirect ''list_files'' (Uploaded ''big_d41d8cd98f.bin''))"
proof -
  let ?f = "\<lparr>file_name = ''big.bin'', file_data = replicate 16777026 CHR ''x''\<rparr>"
  let ?req = "\<lparr>content_length = 16777216, files = [''file'' \<mapsto> ?f]\<rparr>"
  have mp: "multipart_request ?req" by (simp add: multipart_request_def)
  have f: "files ?req ''file'' = Some ?f" by simp
  have name: "file_name ?f \<noteq> []" by simp
  have p: "os_path_join (UPLOAD_FOLDER default_app)
      (generate_unique_filename ''big.bin'' sample_digest) = ''uploads/big_d41d8cd98f.bin''"
    by (simp add: big_name os_path_join_def UPLOAD_FOLDER_def default_app_def)
  have r: "resolve (disk empty_folder) (os_path_join (UPLOAD_FOLDER default_app)
        (generate_unique_filename (file_name ?f) sample_digest))
      = Inr [''srv'', ''fileshare'', ''uploads'', ''big_d41d8cd98f.bin'']"
    by (simp add: p empty_folder_def big_resolves)
  have n: "node_at (disk empty_folder) [''srv'', ''fileshare'', ''uploads'', ''big_d41d8cd98f.bin'']
      \<noteq> Some Directory"
    by (simp add: empty_folder_def big_absent)
  have b: "content_length ?req \<le> max_file_size default_app"
    by (simp add: default_app_def)
  from upload_accepted_up_to_max_body [of ?req ?f empty_folder default_app sample_digest
      "[''srv'', ''fileshare'', ''uploads'', ''big_d41d8cd98f.bin'']"] mp f name r n b
  have "upload default_app empty_folder ?req sample_digest =
      (empty_folder\<lparr>disk := (disk empty_folder)\<lparr>nodes := (nodes (disk empty_folder))
           ([''srv'', ''fileshare'', ''uploads'', ''big_d41d8cd98f.bin'']
              \<mapsto> RegularFile (file_data ?f))\<rparr>\<rparr>,
       Redirect ''list_files'' (Uploaded (generate_unique_filename (file_name ?f) sample_digest)))"
    by blast
  then have "upload default_app empty_folder ?req sample_digest
     = (empty_folder\<lparr>disk := uploads_disk\<lparr>nodes := (nodes uploads_disk)
           ([''srv'', ''fileshare'', ''uploads'', ''big_d41d8cd98f.bin'']
              \<mapsto> RegularFile (replicate 16777026 CHR ''x''))\<rparr>\<rparr>,
        Redirect ''list_files'' (Uploaded ''big_d41d8cd98f.bin''))"
    by (simp add: big_name empty_folder_def)
  with mp r n b show ?thesis by simp
qed

text \<open>A multipart request that carries a file of exactly the default maximum, 16 MiB, is
  refused with 413, and the storage directory stays as it was.\<close>

theorem exact_max_upload_refused_counterexample:
  "multipart_request
     \<lparr>content_length = 16777216 + 190,
      files = [''file'' \<mapsto> \<lparr>file_name = ''big.bin'', file_data = replicate 16777216 CHR ''x''\<rparr>]\<rparr>
   \<and> int (length (file_data \<lparr>file_name = ''big.bin'', file_data = replicate 16777216 CHR ''x''\<rparr>))
       = max_file_size default_app
   \<and> upload default_app empty_folder
       \<lparr>content_length = 16777216 + 190,
        files = [''file'' \<mapsto> \<lparr>file_name = ''big.bin'', file_data = replicate 16777216 CHR ''x''\<rparr>]\<rparr>
       sample_digest
     = (empty_folder, RequestEntityTooLarge)"
  by (simp add: multipart_request_def upload_def request_files_def MAX_CONTENT_LENGTH_def
      default_app_def)

end
